theory Spec2Isabelle
  imports Main
begin

section \<open>Python values, exceptions and the built-ins the actions call\<close>

text \<open>
  The Allora actions are two thin asynchronous handlers, an input schema and a registry.
  Their behaviour is decided by what the client returns or raises, by attribute access
  on the returned object, by string formatting and by \<^verbatim>\<open>json.dumps\<close>. This section
  models those parts of Python.

  A Python \<^verbatim>\<open>str\<close> is modelled as a \<^typ>\<open>string\<close> whose characters are the code
  points below 256. Floats, bytes and cyclic object graphs are outside the value model,
  and so is the interpreter's limit on the number of digits of an integer that is
  converted to text.
\<close>

text \<open>
  An exception object: its class name, whether it is an instance of \<^verbatim>\<open>Exception\<close>
  (\<^verbatim>\<open>KeyboardInterrupt\<close>, \<^verbatim>\<open>SystemExit\<close> and \<^verbatim>\<open>asyncio.CancelledError\<close> derive from
  \<^verbatim>\<open>BaseException\<close> only), and what \<^verbatim>\<open>str(e)\<close> does: it returns the message of the
  exception (\<open>Inr\<close>), or the \<^verbatim>\<open>__str__\<close> of the class raises an exception of its own
  (\<open>Inl\<close>).
\<close>

datatype py_exception =
  PyException (exc_class: string) (isinstance_Exception: bool)
    (exc_str: "py_exception + string")

text \<open>The built-in exception classes that occur, made with a message.\<close>

definition Exception :: "string \<Rightarrow> py_exception" where
  "Exception msg = PyException ''Exception'' True (Inr msg)"

definition TypeError :: "string \<Rightarrow> py_exception" where
  "TypeError msg = PyException ''TypeError'' True (Inr msg)"

definition AttributeError :: "string \<Rightarrow> py_exception" where
  "AttributeError msg = PyException ''AttributeError'' True (Inr msg)"

definition CancelledError :: "string \<Rightarrow> py_exception" where
  "CancelledError msg = PyException ''CancelledError'' False (Inr msg)"

text \<open>
  A Python value. \<open>PObj c r attrs\<close> is an instance of a class named \<open>c\<close> whose
  \<^verbatim>\<open>repr\<close> is the text \<open>r\<close> and whose instance attributes are \<open>attrs\<close>; it keeps the
  default \<^verbatim>\<open>__str__\<close>, which returns the \<^verbatim>\<open>repr\<close>.
\<close>

datatype pyval =
    PNone
  | PBool bool
  | PInt int
  | PStr string
  | PList "pyval list"
  | PDict "(pyval \<times> pyval) list"
  | PObj string string "(string \<times> pyval) list"

text \<open>The name \<^verbatim>\<open>type(v).__name__\<close>.\<close>

fun py_type_name :: "pyval \<Rightarrow> string" where
  "py_type_name PNone = ''NoneType''"
| "py_type_name (PBool b) = ''bool''"
| "py_type_name (PInt i) = ''int''"
| "py_type_name (PStr s) = ''str''"
| "py_type_name (PList xs) = ''list''"
| "py_type_name (PDict kvs) = ''dict''"
| "py_type_name (PObj c r attrs) = c"

text \<open>\<^verbatim>\<open>sep.join(chunks)\<close>.\<close>

fun join :: "string \<Rightarrow> string list \<Rightarrow> string" where
  "join sep [] = []"
| "join sep [s] = s"
| "join sep (s # t # ss) = s @ sep @ join sep (t # ss)"

definition hexdigit :: "nat \<Rightarrow> char" where
  "hexdigit n = ''0123456789abcdef'' ! (n mod 16)"

text \<open>The decimal text of an integer (\<^verbatim>\<open>int.__repr__\<close>).\<close>

fun str_nat :: "nat \<Rightarrow> string" where
  "str_nat n = (if n < 10 then [hexdigit n] else str_nat (n div 10) @ [hexdigit (n mod 10)])"

declare str_nat.simps [simp del]

definition str_int :: "int \<Rightarrow> string" where
  "str_int i = (if i < 0 then ''-'' @ str_nat (nat (- i)) else str_nat (nat i))"

text \<open>
  \<^verbatim>\<open>repr\<close> of a \<^verbatim>\<open>str\<close>: double quotes when the text has a single quote and no double
  quote, single quotes otherwise; the quote and the backslash are escaped, tab, newline
  and carriage return are written \<^verbatim>\<open>\t \n \r\<close>, and the code points that are not
  printable (below 32, 127 to 160, and 173) are written \<^verbatim>\<open>\xhh\<close>.
\<close>

definition repr_char :: "char \<Rightarrow> char \<Rightarrow> string" where
  "repr_char quote c =
     (let n = (of_char c :: nat) in
      if c = quote \<or> c = CHR 0x5C then [CHR 0x5C, c]
      else if c = CHR 0x09 then [CHR 0x5C, CHR ''t'']
      else if c = CHR 0x0A then [CHR 0x5C, CHR ''n'']
      else if c = CHR 0x0D then [CHR 0x5C, CHR ''r'']
      else if n < 32 \<or> n = 127 \<or> (128 \<le> n \<and> n \<le> 160) \<or> n = 173
        then [CHR 0x5C, CHR ''x'', hexdigit (n div 16), hexdigit (n mod 16)]
      else [c])"

definition repr_str :: "string \<Rightarrow> string" where
  "repr_str s =
     (let quote = (if CHR 0x27 \<in> set s \<and> CHR 0x22 \<notin> set s then CHR 0x22 else CHR 0x27)
      in [quote] @ concat (map (repr_char quote) s) @ [quote])"

function py_repr :: "pyval \<Rightarrow> string"
  and py_repr_items :: "pyval list \<Rightarrow> string list"
  and py_repr_pairs :: "(pyval \<times> pyval) list \<Rightarrow> string list" where
  "py_repr PNone = ''None''"
| "py_repr (PBool b) = (if b then ''True'' else ''False'')"
| "py_repr (PInt i) = str_int i"
| "py_repr (PStr s) = repr_str s"
| "py_repr (PList xs) = ''['' @ join '', '' (py_repr_items xs) @ '']''"
| "py_repr (PDict kvs) = ''{'' @ join '', '' (py_repr_pairs kvs) @ ''}''"
| "py_repr (PObj c r attrs) = r"
| "py_repr_items [] = []"
| "py_repr_items (x # xs) = py_repr x # py_repr_items xs"
| "py_repr_pairs [] = []"
| "py_repr_pairs ((k, v) # kvs) = (py_repr k @ '': '' @ py_repr v) # py_repr_pairs kvs"
  by pat_completeness auto
termination
  by (relation "measure (case_sum size
        (case_sum (size_list size) (size_list (size_prod size size))))") auto

text \<open>
  \<^verbatim>\<open>str(v)\<close>, which is what a replacement field \<^verbatim>\<open>{v}\<close> of an f-string inserts:
  a \<^verbatim>\<open>str\<close> is inserted as it is, every other value by its \<^verbatim>\<open>repr\<close>.
\<close>

fun py_str :: "pyval \<Rightarrow> string" where
  "py_str (PStr s) = s"
| "py_str v = py_repr v"

text \<open>
  \<^verbatim>\<open>obj.attr\<close> for the attribute names the handlers read (\<^verbatim>\<open>inference_data\<close>,
  \<^verbatim>\<open>network_inference_normalized\<close>): an instance gives the attribute when it has it;
  an instance without it, and every value of a built-in type, raises
  \<^verbatim>\<open>AttributeError\<close>.
\<close>

definition no_attribute :: "pyval \<Rightarrow> string \<Rightarrow> py_exception" where
  "no_attribute obj attr =
     AttributeError ([CHR 0x27] @ py_type_name obj @ [CHR 0x27] @ '' object has no attribute ''
       @ [CHR 0x27] @ attr @ [CHR 0x27])"

fun py_getattr :: "pyval \<Rightarrow> string \<Rightarrow> py_exception + pyval" where
  "py_getattr (PObj c r attrs) attr =
     (case map_of attrs attr of
        Some v \<Rightarrow> Inr v
      | None \<Rightarrow> Inl (no_attribute (PObj c r attrs) attr))"
| "py_getattr obj attr = Inl (no_attribute obj attr)"

text \<open>
  \<^verbatim>\<open>try: body except Exception as e: handler(e)\<close>. \<open>Inl e\<close> is the exception \<open>e\<close>
  raised, \<open>Inr v\<close> the value \<open>v\<close> returned. An exception that is not an instance of
  \<^verbatim>\<open>Exception\<close> is not caught.
\<close>

definition try_except_Exception ::
  "py_exception + 'a \<Rightarrow> (py_exception \<Rightarrow> py_exception + 'a) \<Rightarrow> py_exception + 'a" where
  "try_except_Exception body handler =
     (case body of
        Inr v \<Rightarrow> Inr v
      | Inl e \<Rightarrow> if isinstance_Exception e then handler e else Inl e)"

text \<open>Sequencing of two statements, the first of which may raise.\<close>

definition raise_bind ::
  "py_exception + 'a \<Rightarrow> ('a \<Rightarrow> py_exception + 'b) \<Rightarrow> py_exception + 'b" where
  "raise_bind m f = (case m of Inl e \<Rightarrow> Inl e | Inr v \<Rightarrow> f v)"

text \<open>Whether a computation returns a value, rather than raising.\<close>

fun returns :: "py_exception + 'a \<Rightarrow> bool" where
  "returns (Inr v) = True"
| "returns (Inl e) = False"

text \<open>
  Whether a call returns a value or raises an error with a message: an instance of
  \<^verbatim>\<open>Exception\<close> for which \<^verbatim>\<open>str(e)\<close> returns.
\<close>

fun returns_or_raises_error :: "py_exception + 'a \<Rightarrow> bool" where
  "returns_or_raises_error (Inr v) = True"
| "returns_or_raises_error (Inl e) = (isinstance_Exception e \<and> returns (exc_str e))"

subsection \<open>\<^verbatim>\<open>json.dumps(obj, indent=n)\<close>\<close>

text \<open>
  The encoder of the standard library with its defaults (\<^verbatim>\<open>ensure_ascii=True\<close>,
  \<^verbatim>\<open>skipkeys=False\<close>, \<^verbatim>\<open>sort_keys=False\<close>) and an integer indent: items are separated
  by a comma and a newline, a key from its value by a colon and a space, every nesting
  level is indented by \<open>n\<close> spaces, and an empty list or dict is written \<^verbatim>\<open>[]\<close> or
  \<^verbatim>\<open>{}\<close>.
\<close>

definition json_escape_char :: "char \<Rightarrow> string" where
  "json_escape_char c =
     (let n = (of_char c :: nat) in
      if c = CHR 0x22 then [CHR 0x5C, CHR 0x22]
      else if c = CHR 0x5C then [CHR 0x5C, CHR 0x5C]
      else if c = CHR 0x0A then [CHR 0x5C, CHR ''n'']
      else if c = CHR 0x0D then [CHR 0x5C, CHR ''r'']
      else if c = CHR 0x09 then [CHR 0x5C, CHR ''t'']
      else if c = CHR 0x08 then [CHR 0x5C, CHR ''b'']
      else if c = CHR 0x0C then [CHR 0x5C, CHR ''f'']
      else if n < 32 \<or> 126 < n
        then [CHR 0x5C, CHR ''u'', CHR ''0'', CHR ''0'', hexdigit (n div 16), hexdigit (n mod 16)]
      else [c])"

definition py_encode_basestring_ascii :: "string \<Rightarrow> string" where
  "py_encode_basestring_ascii s = [CHR 0x22] @ concat (map json_escape_char s) @ [CHR 0x22]"

definition not_serializable :: "pyval \<Rightarrow> py_exception" where
  "not_serializable obj =
     TypeError (''Object of type '' @ py_type_name obj @ '' is not JSON serializable'')"

text \<open>
  A dict key: a \<^verbatim>\<open>str\<close> is kept, \<^verbatim>\<open>True\<close>, \<^verbatim>\<open>False\<close>, \<^verbatim>\<open>None\<close> and an
  \<^verbatim>\<open>int\<close> are converted to text, every other key raises \<^verbatim>\<open>TypeError\<close>.
\<close>

fun json_key :: "pyval \<Rightarrow> py_exception + string" where
  "json_key (PStr s) = Inr s"
| "json_key (PBool b) = Inr (if b then ''true'' else ''false'')"
| "json_key PNone = Inr ''null''"
| "json_key (PInt i) = Inr (str_int i)"
| "json_key k =
     Inl (TypeError (''keys must be str, int, float, bool or None, not '' @ py_type_name k))"

definition newline_indent :: "nat \<Rightarrow> nat \<Rightarrow> string" where
  "newline_indent n level = CHR 0x0A # replicate (n * level) CHR '' ''"

function iterencode :: "nat \<Rightarrow> pyval \<Rightarrow> nat \<Rightarrow> py_exception + string"
  and iterencode_list :: "nat \<Rightarrow> pyval list \<Rightarrow> nat \<Rightarrow> py_exception + string list"
  and iterencode_dict :: "nat \<Rightarrow> (pyval \<times> pyval) list \<Rightarrow> nat \<Rightarrow> py_exception + string list"
  where
  "iterencode n PNone level = Inr ''null''"
| "iterencode n (PBool b) level = Inr (if b then ''true'' else ''false'')"
| "iterencode n (PInt i) level = Inr (str_int i)"
| "iterencode n (PStr s) level = Inr (py_encode_basestring_ascii s)"
| "iterencode n (PList lst) level =
     (if lst = [] then Inr ''[]''
      else case iterencode_list n lst (Suc level) of
             Inl e \<Rightarrow> Inl e
           | Inr chunks \<Rightarrow>
               Inr (''['' @ newline_indent n (Suc level)
                    @ join ('','' @ newline_indent n (Suc level)) chunks
                    @ newline_indent n level @ '']''))"
| "iterencode n (PDict dct) level =
     (if dct = [] then Inr ''{}''
      else case iterencode_dict n dct (Suc level) of
             Inl e \<Rightarrow> Inl e
           | Inr chunks \<Rightarrow>
               Inr (''{'' @ newline_indent n (Suc level)
                    @ join ('','' @ newline_indent n (Suc level)) chunks
                    @ newline_indent n level @ ''}''))"
| "iterencode n (PObj c r attrs) level = Inl (not_serializable (PObj c r attrs))"
| "iterencode_list n [] level = Inr []"
| "iterencode_list n (v # rest) level =
     (case iterencode n v level of
        Inl e \<Rightarrow> Inl e
      | Inr chunk \<Rightarrow>
          (case iterencode_list n rest level of
             Inl e \<Rightarrow> Inl e
           | Inr chunks \<Rightarrow> Inr (chunk # chunks)))"
| "iterencode_dict n [] level = Inr []"
| "iterencode_dict n ((k, v) # rest) level =
     (case json_key k of
        Inl e \<Rightarrow> Inl e
      | Inr key \<Rightarrow>
          (case iterencode n v level of
             Inl e \<Rightarrow> Inl e
           | Inr chunk \<Rightarrow>
               (case iterencode_dict n rest level of
                  Inl e \<Rightarrow> Inl e
                | Inr chunks \<Rightarrow>
                    Inr ((py_encode_basestring_ascii key @ '': '' @ chunk) # chunks))))"
  by pat_completeness auto
termination
  by (relation "measure (case_sum (\<lambda>(n, v, level). size v)
        (case_sum (\<lambda>(n, lst, level). size_list size lst)
                  (\<lambda>(n, dct, level). size_list (size_prod size size) dct)))") auto

definition json_dumps :: "pyval \<Rightarrow> nat \<Rightarrow> py_exception + string" where
  "json_dumps obj indent = iterencode indent obj 0"

text \<open>
  The values \<^verbatim>\<open>json.dumps\<close> can write: \<^verbatim>\<open>None\<close>, booleans, integers, strings,
  lists of such values, and dicts of such values whose keys are strings, integers,
  booleans or \<^verbatim>\<open>None\<close>. An instance of a class is not among them.
\<close>

function json_serializable :: "pyval \<Rightarrow> bool"
  and json_serializable_list :: "pyval list \<Rightarrow> bool"
  and json_serializable_dict :: "(pyval \<times> pyval) list \<Rightarrow> bool" where
  "json_serializable PNone = True"
| "json_serializable (PBool b) = True"
| "json_serializable (PInt i) = True"
| "json_serializable (PStr s) = True"
| "json_serializable (PList lst) = json_serializable_list lst"
| "json_serializable (PDict dct) = json_serializable_dict dct"
| "json_serializable (PObj c r attrs) = False"
| "json_serializable_list [] = True"
| "json_serializable_list (v # rest) = (json_serializable v \<and> json_serializable_list rest)"
| "json_serializable_dict [] = True"
| "json_serializable_dict ((k, v) # rest) =
     (returns (json_key k) \<and> json_serializable v \<and> json_serializable_dict rest)"
  by pat_completeness auto
termination
  by (relation "measure (case_sum size
        (case_sum (size_list size) (size_list (size_prod size size))))") auto

section \<open>The Allora API client\<close>

text \<open>
  The client is an external collaborator. A handler awaits one of its two operations
  once; what that call does (the value it returns, or the exception it raises) is the
  client's behaviour. The calls a handler makes are recorded, in order, in a call log
  that is passed through the handler, as a mock's call list is.
\<close>

record AlloraAPIClient =
  client_get_all_topics :: "py_exception + pyval"
  client_get_price_prediction :: "string \<Rightarrow> string \<Rightarrow> py_exception + pyval"

datatype client_call =
    Call_get_all_topics
  | Call_get_price_prediction string string

definition await_get_all_topics ::
  "AlloraAPIClient \<Rightarrow> client_call list \<Rightarrow> (py_exception + pyval) \<times> client_call list" where
  "await_get_all_topics client calls =
     (client_get_all_topics client, calls @ [Call_get_all_topics])"

definition await_get_price_prediction ::
  "AlloraAPIClient \<Rightarrow> string \<Rightarrow> string \<Rightarrow> client_call list
     \<Rightarrow> (py_exception + pyval) \<times> client_call list" where
  "await_get_price_prediction client token timeframe calls =
     (client_get_price_prediction client token timeframe,
      calls @ [Call_get_price_prediction token timeframe])"

section \<open>The handlers\<close>

text \<open>
  \<^verbatim>\<open>get_all_topics(client)\<close> of \<^verbatim>\<open>get_all_topics.py\<close>. The result is the string the
  handler returns (\<open>Inr\<close>) or the exception that leaves it (\<open>Inl\<close>), with the call log.
  The f-string of the \<^verbatim>\<open>except\<close> clause formats \<^verbatim>\<open>{e}\<close> with \<^verbatim>\<open>str(e)\<close> outside the
  \<^verbatim>\<open>try\<close> block: what \<^verbatim>\<open>str(e)\<close> raises leaves the handler.
\<close>

definition get_all_topics ::
  "AlloraAPIClient \<Rightarrow> client_call list \<Rightarrow> (py_exception + string) \<times> client_call list" where
  "get_all_topics client calls =
     (case await_get_all_topics client calls of
        (awaited, calls') \<Rightarrow>
          (try_except_Exception
             (raise_bind awaited (\<lambda>topics.
              raise_bind (json_dumps topics 4) (\<lambda>topics_json.
              Inr (''The available topics at Allora Network are:'' @ [CHR 0x0A] @ topics_json))))
             (\<lambda>e. raise_bind (exc_str e) (\<lambda>message.
              Inr (''Error getting all topics: '' @ message))),
           calls'))"

text \<open>
  \<^verbatim>\<open>get_price_prediction(client, token, timeframe)\<close> of
  \<^verbatim>\<open>get_price_prediction.py\<close>.
\<close>

definition get_price_prediction ::
  "AlloraAPIClient \<Rightarrow> string \<Rightarrow> string \<Rightarrow> client_call list
     \<Rightarrow> (py_exception + string) \<times> client_call list" where
  "get_price_prediction client token timeframe calls =
     (case await_get_price_prediction client token timeframe calls of
        (awaited, calls') \<Rightarrow>
          (try_except_Exception
             (raise_bind awaited (\<lambda>price_prediction.
              raise_bind (py_getattr price_prediction ''inference_data'') (\<lambda>inference_data.
              raise_bind (py_getattr inference_data ''network_inference_normalized'') (\<lambda>v.
              Inr (''The future price prediction for '' @ token @ '' in '' @ timeframe
                   @ '' is '' @ py_str v)))))
             (\<lambda>e. raise_bind (exc_str e) (\<lambda>message.
              Inr (''Error getting price prediction: '' @ message))),
           calls'))"

section \<open>The input schema of the price prediction action\<close>

text \<open>
  \<^verbatim>\<open>GetPricePredictionInput\<close> is a pydantic model with two required \<^verbatim>\<open>str\<close>
  fields. Constructing it from keyword arguments validates every field and collects the
  errors in field order: a missing field is an error of type \<^verbatim>\<open>missing\<close>, a value
  that is not a \<^verbatim>\<open>str\<close> one of type \<^verbatim>\<open>string_type\<close>; keyword arguments with other
  names are ignored.
\<close>

record GetPricePredictionInput =
  token :: string
  timeframe :: string

datatype error_type = missing | string_type

datatype ValidationError = ValidationError "(string \<times> error_type) list"

definition validate_str_field ::
  "(string \<rightharpoonup> pyval) \<Rightarrow> string \<Rightarrow> (string \<times> error_type) list + string" where
  "validate_str_field kwargs field =
     (case kwargs field of
        None \<Rightarrow> Inl [(field, missing)]
      | Some (PStr s) \<Rightarrow> Inr s
      | Some _ \<Rightarrow> Inl [(field, string_type)])"

definition GetPricePredictionInput_init ::
  "(string \<rightharpoonup> pyval) \<Rightarrow> ValidationError + GetPricePredictionInput" where
  "GetPricePredictionInput_init kwargs =
     (case (validate_str_field kwargs ''token'', validate_str_field kwargs ''timeframe'') of
        (Inr t, Inr tf) \<Rightarrow> Inr \<lparr>token = t, timeframe = tf\<rparr>
      | (Inl errs, Inr tf) \<Rightarrow> Inl (ValidationError errs)
      | (Inr t, Inl errs) \<Rightarrow> Inl (ValidationError errs)
      | (Inl errs, Inl errs') \<Rightarrow> Inl (ValidationError (errs @ errs')))"

section \<open>The actions and their registry\<close>

text \<open>
  Modelled from the spec: the base class \<^verbatim>\<open>AlloraAction\<close> of \<^verbatim>\<open>action.py\<close>, which is
  not among the sources. The spec describes an action as a name, a description, an
  optional input schema and a handler; the field names are those that the two action
  classes declare. The two classes differ in the arguments of their handler.
\<close>

datatype action_func =
    Func_client
      "AlloraAPIClient \<Rightarrow> client_call list \<Rightarrow> (py_exception + string) \<times> client_call list"
  | Func_client_token_timeframe
      "AlloraAPIClient \<Rightarrow> string \<Rightarrow> string \<Rightarrow> client_call list
         \<Rightarrow> (py_exception + string) \<times> client_call list"

record AlloraAction =
  name :: string
  description :: string
  args_schema :: "((string \<rightharpoonup> pyval) \<Rightarrow> ValidationError + GetPricePredictionInput) option"
  func :: action_func

definition GET_ALL_TOPICS_PROMPT :: string where
  "GET_ALL_TOPICS_PROMPT =
     [CHR 0x0A] @ ''This tool will get all available topics from Allora Network.'' @ [CHR 0x0A]"

definition GET_PRICE_PREDICTION_PROMPT :: string where
  "GET_PRICE_PREDICTION_PROMPT =
     [CHR 0x0A]
     @ ''This tool will get the future price prediction for a given crypto asset from Allora Network.''
     @ [CHR 0x0A] @ ''It takes the crypto asset and timeframe as inputs.'' @ [CHR 0x0A]"

text \<open>A class is called with no arguments to make its instance.\<close>

definition GetAllTopicsAction :: "unit \<Rightarrow> AlloraAction" where
  "GetAllTopicsAction u =
     \<lparr>name = ''get_all_topics'',
      description = GET_ALL_TOPICS_PROMPT,
      args_schema = None,
      func = Func_client get_all_topics\<rparr>"

definition GetPricePredictionAction :: "unit \<Rightarrow> AlloraAction" where
  "GetPricePredictionAction u =
     \<lparr>name = ''get_price_prediction'',
      description = GET_PRICE_PREDICTION_PROMPT,
      args_schema = Some GetPricePredictionInput_init,
      func = Func_client_token_timeframe get_price_prediction\<rparr>"

text \<open>
  \<^verbatim>\<open>get_all_allora_actions\<close> of the package's \<^verbatim>\<open>__init__.py\<close>: the loop appends one
  instance for each class of \<^verbatim>\<open>AlloraAction.__subclasses__()\<close>, which is the argument
  here. When the package is initialised the subclasses are the two action classes it has
  imported, in the order of the imports.
\<close>

fun for_action_in :: "(unit \<Rightarrow> AlloraAction) list \<Rightarrow> AlloraAction list \<Rightarrow> AlloraAction list" where
  "for_action_in [] actions = actions"
| "for_action_in (action # rest) actions = for_action_in rest (actions @ [action ()])"

definition get_all_allora_actions :: "(unit \<Rightarrow> AlloraAction) list \<Rightarrow> AlloraAction list" where
  "get_all_allora_actions subclasses = for_action_in subclasses []"

definition AlloraAction_subclasses :: "(unit \<Rightarrow> AlloraAction) list" where
  "AlloraAction_subclasses = [GetAllTopicsAction, GetPricePredictionAction]"

definition ALLORA_ACTIONS :: "AlloraAction list" where
  "ALLORA_ACTIONS = get_all_allora_actions AlloraAction_subclasses"

section \<open>Fixtures of the tests\<close>

text \<open>
  The values of \<^verbatim>\<open>test_get_price_prediction.py\<close>: the token and the timeframe, the
  mocked inference, and a mocked client whose two operations have fixed outcomes.
\<close>

definition MOCK_TOKEN :: string where
  "MOCK_TOKEN = ''BTC''"

definition MOCK_TIMEFRAME :: string where
  "MOCK_TIMEFRAME = ''5m''"

definition mock_inference :: pyval where
  "mock_inference =
     PObj ''Mock'' ''<Mock>''
       [(''inference_data'',
         PObj ''Mock'' ''<Mock>'' [(''network_inference_normalized'', PStr ''50000.00'')])]"

definition mock_client ::
  "py_exception + pyval \<Rightarrow> py_exception + pyval \<Rightarrow> AlloraAPIClient" where
  "mock_client all_topics price_prediction =
     \<lparr>client_get_all_topics = all_topics,
      client_get_price_prediction = (\<lambda>token timeframe. price_prediction)\<rparr>"

text \<open>
  An instance of a subclass of \<^verbatim>\<open>Exception\<close> whose \<^verbatim>\<open>__str__\<close> returns an integer, so
  that \<^verbatim>\<open>str(e)\<close> raises \<^verbatim>\<open>TypeError\<close>.
\<close>

definition mock_unprintable_error :: py_exception where
  "mock_unprintable_error =
     PyException ''ApiError'' True (Inl (TypeError ''__str__ returned non-string (type int)''))"


definition mock_topic_object :: pyval where
  "mock_topic_object =
     PObj ''AlloraTopic'' ''AlloraTopic(topic_id=1)'' [(''topic_id'', PInt 1)]"

section \<open>What the built-ins raise\<close>

text \<open>
  A \<^verbatim>\<open>TypeError\<close> and an \<^verbatim>\<open>AttributeError\<close> made with a message are instances of
  \<^verbatim>\<open>Exception\<close>, and \<^verbatim>\<open>str\<close> returns their message.
\<close>

lemma isinstance_Exception_TypeError: "isinstance_Exception (TypeError msg)"
  by (simp add: TypeError_def)

lemma exc_str_TypeError: "exc_str (TypeError msg) = Inr msg"
  by (simp add: TypeError_def)

lemma isinstance_Exception_AttributeError: "isinstance_Exception (AttributeError msg)"
  by (simp add: AttributeError_def)

lemma exc_str_AttributeError: "exc_str (AttributeError msg) = Inr msg"
  by (simp add: AttributeError_def)

lemma json_key_raises_TypeError:
  "json_key k = Inl e \<Longrightarrow> \<exists>msg. e = TypeError msg"
  by (cases k) auto

text \<open>
  Whatever the encoder raises is a \<^verbatim>\<open>TypeError\<close> with a message: simultaneous
  induction along the three mutually recursive functions.
\<close>

lemma iterencode_raises_TypeError:
  "iterencode n v level = Inl e \<Longrightarrow> \<exists>msg. e = TypeError msg"
  "iterencode_list n lst level = Inl e \<Longrightarrow> \<exists>msg. e = TypeError msg"
  "iterencode_dict n dct level = Inl e \<Longrightarrow> \<exists>msg. e = TypeError msg"
proof (induction n v level and n lst level and n dct level
       rule: iterencode_iterencode_list_iterencode_dict.induct)
  case (7 n c r attrs level)
  then show ?case
    by (auto simp: not_serializable_def)
next
  case (11 n k v rest level)
  then show ?case
    by (auto split: sum.splits dest: json_key_raises_TypeError)
qed (auto split: sum.splits if_splits)

lemma json_dumps_raises_TypeError:
  "json_dumps obj indent = Inl e \<Longrightarrow> \<exists>msg. e = TypeError msg"
  by (simp add: json_dumps_def iterencode_raises_TypeError(1))

lemma py_getattr_raises_AttributeError:
  "py_getattr obj attr = Inl e \<Longrightarrow> \<exists>msg. e = AttributeError msg"
  by (cases obj) (auto simp: no_attribute_def split: option.splits)

text \<open>
  The encoder returns a text exactly for the serializable values, and the chunks of a
  list are the renderings of its items, one for each item and in the order of the list.
\<close>

lemma iterencode_serializable:
  "json_serializable v = returns (iterencode n v level)"
  "json_serializable_list lst = returns (iterencode_list n lst level)"
  "json_serializable_dict dct = returns (iterencode_dict n dct level)"
  by (induction n v level and n lst level and n dct level
       rule: iterencode_iterencode_list_iterencode_dict.induct)
     (auto split: sum.splits)


lemma json_dumps_not_serializable:
  "(\<not> json_serializable obj) = (\<exists>e. json_dumps obj indent = Inl e)"
  unfolding json_dumps_def iterencode_serializable(1) [of obj indent 0]
  by (cases "iterencode indent obj 0"; simp)

lemma iterencode_list_chunks:
  "iterencode_list n lst level = Inr chunks \<Longrightarrow>
     length chunks = length lst \<and>
     (\<forall>i < length lst. iterencode n (lst ! i) level = Inr (chunks ! i))"
proof (induction lst arbitrary: chunks)
  case Nil
  then show ?case by simp
next
  case (Cons v rest)
  then show ?case
    by (auto split: sum.splits simp: nth_Cons')
qed

section \<open>The two handlers\<close>

text \<open>The returned string, or the exception, of each handler, without the call log.\<close>

lemma fst_get_all_topics:
  "fst (get_all_topics client calls) =
     try_except_Exception
       (raise_bind (client_get_all_topics client) (\<lambda>topics.
        raise_bind (json_dumps topics 4) (\<lambda>topics_json.
        Inr (''The available topics at Allora Network are:'' @ [CHR 0x0A] @ topics_json))))
       (\<lambda>e. raise_bind (exc_str e) (\<lambda>message.
        Inr (''Error getting all topics: '' @ message)))"
  by (simp add: get_all_topics_def await_get_all_topics_def)

lemma fst_get_price_prediction:
  fixes token timeframe :: string
  shows "fst (get_price_prediction client token timeframe calls) =
     try_except_Exception
       (raise_bind (client_get_price_prediction client token timeframe) (\<lambda>price_prediction.
        raise_bind (py_getattr price_prediction ''inference_data'') (\<lambda>inference_data.
        raise_bind (py_getattr inference_data ''network_inference_normalized'') (\<lambda>v.
        Inr (''The future price prediction for '' @ token @ '' in '' @ timeframe
             @ '' is '' @ py_str v)))))
       (\<lambda>e. raise_bind (exc_str e) (\<lambda>message.
        Inr (''Error getting price prediction: '' @ message)))"
  by (simp add: get_price_prediction_def await_get_price_prediction_def)

text \<open>
  An exception that is not an instance of \<^verbatim>\<open>Exception\<close> is a signal
  (\<^verbatim>\<open>asyncio.CancelledError\<close> when the awaiting task is cancelled,
  \<^verbatim>\<open>KeyboardInterrupt\<close>, \<^verbatim>\<open>SystemExit\<close>), not an error of the client. The
  \<^verbatim>\<open>except Exception\<close> clause of the handlers does not match it, and the handler
  raises it unchanged.
\<close>

lemma get_all_topics_passes_signal:
  assumes "client_get_all_topics client = Inl e" and "\<not> isinstance_Exception e"
  shows "fst (get_all_topics client calls) = Inl e"
  using assms
  by (simp add: fst_get_all_topics raise_bind_def try_except_Exception_def)

lemma get_price_prediction_passes_signal:
  fixes token timeframe :: string
  assumes "client_get_price_prediction client token timeframe = Inl e"
    and "\<not> isinstance_Exception e"
  shows "fst (get_price_prediction client token timeframe calls) = Inl e"
  using assms
  by (simp add: fst_get_price_prediction raise_bind_def try_except_Exception_def)

text \<open>
  An instance of \<^verbatim>\<open>Exception\<close> is caught, and the \<^verbatim>\<open>except\<close> clause formats it. When
  its \<^verbatim>\<open>__str__\<close> raises, that exception is raised in the \<^verbatim>\<open>except\<close> clause and the
  handler raises it.
\<close>

lemma get_all_topics_str_raises:
  assumes "client_get_all_topics client = Inl e" and "isinstance_Exception e"
    and "exc_str e = Inl e'"
  shows "fst (get_all_topics client calls) = Inl e'"
  using assms
  by (simp add: fst_get_all_topics raise_bind_def try_except_Exception_def)

lemma get_price_prediction_str_raises:
  fixes token timeframe :: string
  assumes "client_get_price_prediction client token timeframe = Inl e"
    and "isinstance_Exception e" and "exc_str e = Inl e'"
  shows "fst (get_price_prediction client token timeframe calls) = Inl e'"
  using assms
  by (simp add: fst_get_price_prediction raise_bind_def try_except_Exception_def)

subsection \<open>Price prediction: the success string\<close>

text \<open>
  C1. For every token, timeframe and client whose price-prediction call returns a
  prediction whose \<^verbatim>\<open>inference_data.network_inference_normalized\<close> is \<open>v\<close>, the
  handler returns exactly "The future price prediction for {token} in {timeframe} is
  {v}", where \<^verbatim>\<open>{v}\<close> is \<^verbatim>\<open>str(v)\<close>: for a string \<open>v\<close>, the string itself.
\<close>

theorem get_price_prediction_success:
  fixes token timeframe :: string
  assumes "client_get_price_prediction client token timeframe = Inr price_prediction"
    and "py_getattr price_prediction ''inference_data'' = Inr inference_data"
    and "py_getattr inference_data ''network_inference_normalized'' = Inr v"
  shows "fst (get_price_prediction client token timeframe calls) =
           Inr (''The future price prediction for '' @ token @ '' in '' @ timeframe
                @ '' is '' @ py_str v)"
  using assms
  by (simp add: fst_get_price_prediction try_except_Exception_def raise_bind_def)

text \<open>
  The case of the test: token "BTC", timeframe "5m" and the normalized value the string
  "50000.00".
\<close>

theorem get_price_prediction_success_witness:
  "client_get_price_prediction (mock_client (Inr PNone) (Inr mock_inference))
      MOCK_TOKEN MOCK_TIMEFRAME = Inr mock_inference
   \<and> fst (get_price_prediction (mock_client (Inr PNone) (Inr mock_inference))
            MOCK_TOKEN MOCK_TIMEFRAME [])
       = Inr ''The future price prediction for BTC in 5m is 50000.00''"
proof -
  let ?data = "PObj ''Mock'' ''<Mock>'' [(''network_inference_normalized'', PStr ''50000.00'')]"
  have returned: "client_get_price_prediction (mock_client (Inr PNone) (Inr mock_inference))
      MOCK_TOKEN MOCK_TIMEFRAME = Inr mock_inference"
    by (simp add: mock_client_def)
  have data: "py_getattr mock_inference ''inference_data'' = Inr ?data"
    by (simp add: mock_inference_def)
  have normalized: "py_getattr ?data ''network_inference_normalized'' = Inr (PStr ''50000.00'')"
    by simp
  show ?thesis
    using returned get_price_prediction_success [OF returned data normalized, of "[]"]
    by (simp add: MOCK_TOKEN_def MOCK_TIMEFRAME_def)
qed

subsection \<open>Price prediction: the error string\<close>

text \<open>
  C2. For every token and timeframe, if the client's price-prediction call raises an
  error (an instance of \<^verbatim>\<open>Exception\<close>) whose message is \<open>m\<close>, the handler returns
  exactly "Error getting price prediction: " followed by \<open>m\<close>; the error does not leave
  the handler.
\<close>

theorem get_price_prediction_error:
  fixes token timeframe :: string
  assumes "client_get_price_prediction client token timeframe = Inl e"
    and "isinstance_Exception e"
    and "exc_str e = Inr m"
  shows "fst (get_price_prediction client token timeframe calls) =
           Inr (''Error getting price prediction: '' @ m)"
  using assms
  by (simp add: fst_get_price_prediction try_except_Exception_def raise_bind_def)

text \<open>The case of the test: the client raises \<^verbatim>\<open>Exception("API error")\<close>.\<close>

theorem get_price_prediction_error_witness:
  "client_get_price_prediction (mock_client (Inr PNone) (Inl (Exception ''API error'')))
      MOCK_TOKEN MOCK_TIMEFRAME = Inl (Exception ''API error'')
   \<and> isinstance_Exception (Exception ''API error'')
   \<and> exc_str (Exception ''API error'') = Inr ''API error''
   \<and> fst (get_price_prediction (mock_client (Inr PNone) (Inl (Exception ''API error'')))
            MOCK_TOKEN MOCK_TIMEFRAME [])
       = Inr ''Error getting price prediction: API error''"
proof -
  have raised: "client_get_price_prediction
      (mock_client (Inr PNone) (Inl (Exception ''API error'')))
      MOCK_TOKEN MOCK_TIMEFRAME = Inl (Exception ''API error'')"
    by (simp add: mock_client_def)
  have caught: "isinstance_Exception (Exception ''API error'')"
    by (simp add: Exception_def)
  have message: "exc_str (Exception ''API error'') = Inr ''API error''"
    by (simp add: Exception_def)
  show ?thesis
    using raised caught message get_price_prediction_error [OF raised caught message, of "[]"]
    by simp
qed

subsection \<open>Price prediction: the call to the client\<close>

text \<open>
  C9. On every invocation the price prediction handler calls the client's
  price-prediction operation exactly once, with the token and the timeframe as it
  received them and in that order, and calls no other operation of the client: the call
  log grows by that one call, whatever the call returns or raises.
\<close>

theorem get_price_prediction_calls_client_once:
  fixes token timeframe :: string
  shows "snd (get_price_prediction client token timeframe calls) =
           calls @ [Call_get_price_prediction token timeframe]"
  by (simp add: get_price_prediction_def await_get_price_prediction_def)

subsection \<open>All topics: the success string\<close>




subsection \<open>All topics: the error string\<close>

text \<open>
  C5. If the client's all-topics call raises an error (an instance of
  \<^verbatim>\<open>Exception\<close>) whose message is \<open>m\<close>, the handler returns exactly "Error getting
  all topics: " followed by \<open>m\<close>.
\<close>

theorem get_all_topics_error:
  assumes "client_get_all_topics client = Inl e"
    and "isinstance_Exception e"
    and "exc_str e = Inr m"
  shows "fst (get_all_topics client calls) = Inr (''Error getting all topics: '' @ m)"
  using assms
  by (simp add: fst_get_all_topics try_except_Exception_def raise_bind_def)

text \<open>The client raises \<^verbatim>\<open>Exception("boom")\<close>.\<close>

theorem get_all_topics_error_witness:
  "client_get_all_topics (mock_client (Inl (Exception ''boom'')) (Inr PNone))
     = Inl (Exception ''boom'')
   \<and> isinstance_Exception (Exception ''boom'')
   \<and> exc_str (Exception ''boom'') = Inr ''boom''
   \<and> fst (get_all_topics (mock_client (Inl (Exception ''boom'')) (Inr PNone)) [])
       = Inr ''Error getting all topics: boom''"
proof -
  have raised: "client_get_all_topics (mock_client (Inl (Exception ''boom'')) (Inr PNone))
     = Inl (Exception ''boom'')"
    by (simp add: mock_client_def)
  have caught: "isinstance_Exception (Exception ''boom'')"
    by (simp add: Exception_def)
  have message: "exc_str (Exception ''boom'') = Inr ''boom''"
    by (simp add: Exception_def)
  show ?thesis
    using raised caught message get_all_topics_error [OF raised caught message, of "[]"]
    by simp
qed

text \<open>
  C10. If the client's all-topics call returns a value that cannot be JSON-serialized,
  \<^verbatim>\<open>json.dumps\<close> raises inside the \<^verbatim>\<open>try\<close> block and the handler returns "Error
  getting all topics: " followed by the message of that error, rather than raising.
\<close>

theorem get_all_topics_serialization_error:
  assumes "client_get_all_topics client = Inr obj"
    and "\<not> json_serializable obj"
  shows "\<exists>e message. json_dumps obj 4 = Inl e \<and> exc_str e = Inr message
           \<and> fst (get_all_topics client calls) =
               Inr (''Error getting all topics: '' @ message)"
proof -
  from assms(2) obtain e where raised: "json_dumps obj 4 = Inl e"
    using json_dumps_not_serializable by blast
  then obtain message where "e = TypeError message"
    using json_dumps_raises_TypeError by blast
  then have "isinstance_Exception e" and "exc_str e = Inr message"
    by (simp_all add: isinstance_Exception_TypeError exc_str_TypeError)
  with assms(1) raised show ?thesis
    by (simp add: fst_get_all_topics try_except_Exception_def raise_bind_def)
qed

text \<open>A list whose one topic is an object of a class.\<close>

theorem get_all_topics_serialization_error_witness:
  "client_get_all_topics (mock_client (Inr (PList [mock_topic_object])) (Inr PNone))
     = Inr (PList [mock_topic_object])
   \<and> \<not> json_serializable (PList [mock_topic_object])
   \<and> fst (get_all_topics (mock_client (Inr (PList [mock_topic_object])) (Inr PNone)) [])
       = Inr ''Error getting all topics: Object of type AlloraTopic is not JSON serializable''"
proof -
  let ?client = "mock_client (Inr (PList [mock_topic_object])) (Inr PNone)"
  have returned: "client_get_all_topics ?client = Inr (PList [mock_topic_object])"
    by (simp add: mock_client_def)
  have unserializable: "\<not> json_serializable (PList [mock_topic_object])"
    by (simp add: mock_topic_object_def)
  have raised: "json_dumps (PList [mock_topic_object]) 4 =
      Inl (TypeError ''Object of type AlloraTopic is not JSON serializable'')"
    by (simp add: json_dumps_def mock_topic_object_def not_serializable_def)
  show ?thesis
    using returned unserializable raised
      get_all_topics_serialization_error [OF returned unserializable, of "[]"]
    by (auto simp: TypeError_def)
qed

subsection \<open>When the handlers return a string\<close>

text \<open>
  The handlers catch \<^verbatim>\<open>Exception\<close>, not \<^verbatim>\<open>BaseException\<close>, and they format the
  caught exception outside the \<^verbatim>\<open>try\<close> block. When the awaited call raises
  \<^verbatim>\<open>asyncio.CancelledError\<close>, as it does when the task that runs the handler is
  cancelled, the handler raises it too; and when the call raises an \<^verbatim>\<open>Exception\<close>
  whose \<^verbatim>\<open>__str__\<close> raises, the handler raises what \<^verbatim>\<open>__str__\<close> raised. Not every
  behaviour of the client makes a handler return a string.
\<close>

theorem handlers_return_a_string_counterexample:
  "fst (get_all_topics (mock_client (Inl (CancelledError [])) (Inr PNone)) [])
     = Inl (CancelledError [])
   \<and> fst (get_price_prediction (mock_client (Inr PNone) (Inl (CancelledError [])))
          MOCK_TOKEN MOCK_TIMEFRAME [])
     = Inl (CancelledError [])
   \<and> fst (get_all_topics (mock_client (Inl mock_unprintable_error) (Inr PNone)) [])
     = Inl (TypeError ''__str__ returned non-string (type int)'')
   \<and> fst (get_price_prediction (mock_client (Inr PNone) (Inl mock_unprintable_error))
          MOCK_TOKEN MOCK_TIMEFRAME [])
     = Inl (TypeError ''__str__ returned non-string (type int)'')"
  by (simp add: fst_get_all_topics fst_get_price_prediction mock_client_def
      CancelledError_def mock_unprintable_error_def raise_bind_def try_except_Exception_def)

text \<open>
  What the try block of each handler raises, when the client call has returned a value,
  is an \<^verbatim>\<open>AttributeError\<close> or a \<^verbatim>\<open>TypeError\<close> of the interpreter, which is caught and
  has a message.
\<close>

lemma get_all_topics_returned:
  assumes "client_get_all_topics client = Inr topics"
  shows "\<exists>s. fst (get_all_topics client calls) = Inr s"
proof (cases "json_dumps topics 4")
  case (Inl e)
  then obtain message where "e = TypeError message"
    using json_dumps_raises_TypeError by blast
  with assms Inl show ?thesis
    by (simp add: fst_get_all_topics try_except_Exception_def raise_bind_def
        isinstance_Exception_TypeError exc_str_TypeError)
next
  case (Inr topics_json)
  with assms show ?thesis
    by (simp add: fst_get_all_topics try_except_Exception_def raise_bind_def)
qed

lemma get_price_prediction_returned:
  fixes token timeframe :: string
  assumes returned: "client_get_price_prediction client token timeframe = Inr price_prediction"
  shows "\<exists>s. fst (get_price_prediction client token timeframe calls) = Inr s"
proof (cases "py_getattr price_prediction ''inference_data''")
  case (Inl e)
  then obtain message where "e = AttributeError message"
    using py_getattr_raises_AttributeError by blast
  with returned Inl show ?thesis
    by (simp add: fst_get_price_prediction try_except_Exception_def raise_bind_def
        isinstance_Exception_AttributeError exc_str_AttributeError)
next
  case data: (Inr inference_data)
  show ?thesis
  proof (cases "py_getattr inference_data ''network_inference_normalized''")
    case (Inl e)
    then obtain message where "e = AttributeError message"
      using py_getattr_raises_AttributeError by blast
    with returned data Inl show ?thesis
      by (simp add: fst_get_price_prediction try_except_Exception_def raise_bind_def
          isinstance_Exception_AttributeError exc_str_AttributeError)
  next
    case (Inr v)
    with returned data show ?thesis
      by (simp add: fst_get_price_prediction try_except_Exception_def raise_bind_def)
  qed
qed

text \<open>
  When the client call has raised, the handler returns a string exactly when the
  exception is an instance of \<^verbatim>\<open>Exception\<close> and \<^verbatim>\<open>str\<close> returns its message.
\<close>

lemma get_all_topics_raised:
  assumes "client_get_all_topics client = Inl e"
  shows "(\<exists>s. fst (get_all_topics client calls) = Inr s)
           = (isinstance_Exception e \<and> returns (exc_str e))"
  using assms
  by (cases "exc_str e")
     (simp_all add: fst_get_all_topics try_except_Exception_def raise_bind_def)

lemma get_price_prediction_raised:
  fixes token timeframe :: string
  assumes "client_get_price_prediction client token timeframe = Inl e"
  shows "(\<exists>s. fst (get_price_prediction client token timeframe calls) = Inr s)
           = (isinstance_Exception e \<and> returns (exc_str e))"
  using assms
  by (cases "exc_str e")
     (simp_all add: fst_get_price_prediction try_except_Exception_def raise_bind_def)

text \<open>
  C4, amended. For every input, each of the two handlers returns a string and does not
  raise exactly when its own call to the client returns a value (\<^verbatim>\<open>None\<close>, a boolean,
  an integer, a string, a list, a dict or a plain instance of a class) or raises an error
  with a message: an instance of \<^verbatim>\<open>Exception\<close> for which \<^verbatim>\<open>str(e)\<close> returns. A failed
  attribute access on the returned prediction and a failed serialization of the
  returned topics are caught as well. Each handler depends on its own client operation
  only.
\<close>

theorem handlers_return_a_string:
  fixes token timeframe :: string
  shows "((\<exists>s. fst (get_all_topics client calls) = Inr s)
            = returns_or_raises_error (client_get_all_topics client))
       \<and> ((\<exists>s. fst (get_price_prediction client token timeframe calls') = Inr s)
            = returns_or_raises_error (client_get_price_prediction client token timeframe))"
proof
  show "(\<exists>s. fst (get_all_topics client calls) = Inr s)
          = returns_or_raises_error (client_get_all_topics client)"
  proof (cases "client_get_all_topics client")
    case (Inl e)
    then show ?thesis
      using get_all_topics_raised [of client e calls] by simp
  next
    case (Inr topics)
    then show ?thesis
      using get_all_topics_returned [of client topics calls] by simp
  qed
next
  show "(\<exists>s. fst (get_price_prediction client token timeframe calls') = Inr s)
          = returns_or_raises_error (client_get_price_prediction client token timeframe)"
  proof (cases "client_get_price_prediction client token timeframe")
    case (Inl e)
    then show ?thesis
      using get_price_prediction_raised [of client token timeframe e calls'] by simp
  next
    case (Inr price_prediction)
    then show ?thesis
      using get_price_prediction_returned [of client token timeframe price_prediction calls']
      by simp
  qed
qed

text \<open>
  A client whose all-topics call raises \<^verbatim>\<open>Exception("timeout")\<close> and whose
  price-prediction call returns \<^verbatim>\<open>None\<close>, which has no attribute
  \<^verbatim>\<open>inference_data\<close>: both handlers return their error string. With the two outcomes
  exchanged and the exception one whose \<^verbatim>\<open>__str__\<close> raises, the all-topics handler
  still returns a string and the price prediction handler does not.
\<close>

theorem handlers_return_a_string_witness:
  "returns_or_raises_error
     (client_get_all_topics (mock_client (Inl (Exception ''timeout'')) (Inr PNone)))
   \<and> returns_or_raises_error
     (client_get_price_prediction (mock_client (Inl (Exception ''timeout'')) (Inr PNone))
        ''ETH'' ''8h'')
   \<and> (\<exists>s. fst (get_all_topics (mock_client (Inl (Exception ''timeout'')) (Inr PNone)) [])
            = Inr s)
   \<and> (\<exists>s. fst (get_price_prediction (mock_client (Inl (Exception ''timeout'')) (Inr PNone))
                 ''ETH'' ''8h'' []) = Inr s)
   \<and> (\<exists>s. fst (get_all_topics (mock_client (Inr PNone) (Inl mock_unprintable_error)) [])
            = Inr s)
   \<and> \<not> (\<exists>s. fst (get_price_prediction
                   (mock_client (Inr PNone) (Inl mock_unprintable_error)) ''ETH'' ''8h'' [])
              = Inr s)"
proof -
  let ?client = "mock_client (Inl (Exception ''timeout'')) (Inr PNone)"
  let ?client' = "mock_client (Inr PNone) (Inl mock_unprintable_error)"
  have topics: "returns_or_raises_error (client_get_all_topics ?client)"
    by (simp add: mock_client_def Exception_def)
  have price: "returns_or_raises_error (client_get_price_prediction ?client ''ETH'' ''8h'')"
    by (simp add: mock_client_def)
  have topics': "returns_or_raises_error (client_get_all_topics ?client')"
    by (simp add: mock_client_def)
  have price': "\<not> returns_or_raises_error (client_get_price_prediction ?client' ''ETH'' ''8h'')"
    by (simp add: mock_client_def mock_unprintable_error_def)
  show ?thesis
    using topics price topics' price'
      handlers_return_a_string [of ?client "[]" "''ETH''" "''8h''" "[]"]
      handlers_return_a_string [of ?client' "[]" "''ETH''" "''8h''" "[]"]
    by simp
qed

section \<open>The registry\<close>

lemma for_action_in_map:
  "for_action_in subclasses actions = actions @ map (\<lambda>action. action ()) subclasses"
  by (induction subclasses arbitrary: actions) simp_all

text \<open>
  C6. The registry returns exactly one instance for each action class, in the order of
  the classes: for the two known classes, one \<^verbatim>\<open>GetAllTopicsAction\<close> and one
  \<^verbatim>\<open>GetPricePredictionAction\<close>, whose names are distinct; with no class, the empty
  list.
\<close>

theorem get_all_allora_actions_one_instance_per_class:
  "get_all_allora_actions subclasses = map (\<lambda>action. action ()) subclasses
   \<and> ALLORA_ACTIONS = [GetAllTopicsAction (), GetPricePredictionAction ()]
   \<and> distinct (map name ALLORA_ACTIONS)
   \<and> get_all_allora_actions [] = []"
  by (simp add: ALLORA_ACTIONS_def AlloraAction_subclasses_def get_all_allora_actions_def
      for_action_in_map GetAllTopicsAction_def GetPricePredictionAction_def)

section \<open>Validation of the price prediction input\<close>

lemma validate_str_field_missing:
  "kwargs field = None \<Longrightarrow> validate_str_field kwargs field = Inl [(field, missing)]"
  by (simp add: validate_str_field_def)

lemma validate_str_field_str:
  "kwargs field = Some (PStr s) \<Longrightarrow> validate_str_field kwargs field = Inr s"
  by (simp add: validate_str_field_def)

lemma validate_str_field_returns:
  "validate_str_field kwargs field = Inr s \<Longrightarrow> kwargs field = Some (PStr s)"
  by (auto simp: validate_str_field_def split: option.splits pyval.splits)

lemma validate_str_field_error:
  "validate_str_field kwargs field = Inl errs \<Longrightarrow>
     errs = [(field, missing)] \<or> errs = [(field, string_type)]"
  by (auto simp: validate_str_field_def split: option.splits pyval.splits)

text \<open>
  C7. Constructing \<^verbatim>\<open>GetPricePredictionInput\<close> with the token missing, the timeframe
  missing or both missing fails with a validation error that reports every missing
  field; no record is produced.
\<close>

theorem GetPricePredictionInput_missing_field:
  assumes "kwargs ''token'' = None \<or> kwargs ''timeframe'' = None"
  shows "\<exists>errs. GetPricePredictionInput_init kwargs = Inl (ValidationError errs)
           \<and> (kwargs ''token'' = None \<longrightarrow> (''token'', missing) \<in> set errs)
           \<and> (kwargs ''timeframe'' = None \<longrightarrow> (''timeframe'', missing) \<in> set errs)"
proof -
  consider
    (both) "kwargs ''token'' = None" "kwargs ''timeframe'' = None"
  | (no_token) "kwargs ''token'' = None" "kwargs ''timeframe'' \<noteq> None"
  | (no_timeframe) "kwargs ''token'' \<noteq> None" "kwargs ''timeframe'' = None"
    using assms by auto
  then show ?thesis
  proof cases
    case both
    then show ?thesis
      by (simp add: GetPricePredictionInput_init_def validate_str_field_missing)
  next
    case no_token
    then have token_error: "validate_str_field kwargs ''token'' = Inl [(''token'', missing)]"
      by (simp add: validate_str_field_missing)
    show ?thesis
    proof (cases "validate_str_field kwargs ''timeframe''")
      case (Inl errs)
      with token_error no_token show ?thesis
        by (auto simp: GetPricePredictionInput_init_def)
    next
      case (Inr tf)
      with token_error no_token show ?thesis
        by (auto simp: GetPricePredictionInput_init_def)
    qed
  next
    case no_timeframe
    then have timeframe_error:
      "validate_str_field kwargs ''timeframe'' = Inl [(''timeframe'', missing)]"
      by (simp add: validate_str_field_missing)
    show ?thesis
    proof (cases "validate_str_field kwargs ''token''")
      case (Inl errs)
      with timeframe_error no_timeframe show ?thesis
        by (auto simp: GetPricePredictionInput_init_def)
    next
      case (Inr t)
      with timeframe_error no_timeframe show ?thesis
        by (auto simp: GetPricePredictionInput_init_def)
    qed
  qed
qed

text \<open>No keyword argument at all (the case of the test), only a timeframe, only a token.\<close>

theorem GetPricePredictionInput_missing_field_witness:
  "GetPricePredictionInput_init Map.empty =
     Inl (ValidationError [(''token'', missing), (''timeframe'', missing)])
   \<and> GetPricePredictionInput_init [''timeframe'' \<mapsto> PStr ''5m''] =
     Inl (ValidationError [(''token'', missing)])
   \<and> GetPricePredictionInput_init [''token'' \<mapsto> PStr ''BTC''] =
     Inl (ValidationError [(''timeframe'', missing)])"
proof -
  have both: "(Map.empty :: string \<rightharpoonup> pyval) ''token'' = None
      \<or> (Map.empty :: string \<rightharpoonup> pyval) ''timeframe'' = None"
    by simp
  have no_token: "[''timeframe'' \<mapsto> PStr ''5m''] ''token'' = None
      \<or> [''timeframe'' \<mapsto> PStr ''5m''] ''timeframe'' = None"
    by simp
  have no_timeframe: "[''token'' \<mapsto> PStr ''BTC''] ''token'' = None
      \<or> [''token'' \<mapsto> PStr ''BTC''] ''timeframe'' = None"
    by simp
  show ?thesis
    using GetPricePredictionInput_missing_field [OF both]
      GetPricePredictionInput_missing_field [OF no_token]
      GetPricePredictionInput_missing_field [OF no_timeframe]
    by (simp add: GetPricePredictionInput_init_def validate_str_field_def)
qed

text \<open>
  C8. For every pair of strings, constructing \<^verbatim>\<open>GetPricePredictionInput\<close> with them
  as token and timeframe succeeds, and the token and the timeframe of the record are
  the two strings, unchanged.
\<close>

theorem GetPricePredictionInput_round_trip:
  "\<exists>r. GetPricePredictionInput_init [''token'' \<mapsto> PStr tok, ''timeframe'' \<mapsto> PStr tf] = Inr r
        \<and> token r = tok \<and> timeframe r = tf"
  by (simp add: GetPricePredictionInput_init_def validate_str_field_def)

end
